theory Spec2Isabelle
  imports Main "HOL-Library.Word"
begin

unbundle bit_operations_syntax

section \<open>Machine integers\<close>

text \<open>
  The table maps files into memory on 64-bit Unix platforms, where Go's \<^verbatim>\<open>int\<close>,
  \<^verbatim>\<open>int64\<close> and \<^verbatim>\<open>uintptr\<close> all have 64 bits.  A Go integer is held as
  the \<^typ>\<open>int\<close> it denotes, and \<open>wrap64\<close> is written wherever the source computes a
  value that two's complement arithmetic may wrap.
\<close>

definition wrap64 :: "int \<Rightarrow> int" where
  "wrap64 x = (x + 2 ^ 63) mod 2 ^ 64 - 2 ^ 63"

text \<open>The conversions \<^verbatim>\<open>uint(x)\<close> and \<^verbatim>\<open>uintptr(x)\<close> of a signed value.\<close>

definition uint64 :: "int \<Rightarrow> nat" where
  "uint64 x = nat (x mod 2 ^ 64)"

text \<open>Go's integer division truncates towards zero.\<close>

definition quot :: "int \<Rightarrow> int \<Rightarrow> int" where
  "quot a b = sgn a * sgn b * (\<bar>a\<bar> div \<bar>b\<bar>)"

section \<open>The layout calculator (file.go)\<close>

text \<open>
  \<^verbatim>\<open>roundUp(length int64, align uintptr)\<close>:
  \<^verbatim>\<open>v := int64(align) - 1; return (length + v) & ^(v)\<close>.
\<close>

definition roundUp :: "int \<Rightarrow> nat \<Rightarrow> int" where
  "roundUp len align =
     (let v = wrap64 (wrap64 (int align) - 1)
      in wrap64 (len + v) AND NOT v)"

text \<open>
  \<^verbatim>\<open>offsets\<close>, with \<^verbatim>\<open>unsafe.Sizeof(header{})\<close> = 16,
  \<^verbatim>\<open>unsafe.Sizeof(hash(0))\<close> = 4, \<^verbatim>\<open>unsafe.Alignof(keyOffset(0))\<close> = 8,
  \<^verbatim>\<open>unsafe.Sizeof(keyOffset(0))\<close> = 8 and \<^verbatim>\<open>unsafe.Sizeof(stringLength(0))\<close> = 4.
\<close>

definition offsets :: "int \<Rightarrow> int \<Rightarrow> int \<Rightarrow> int \<times> int \<times> int \<times> int \<times> int" where
  "offsets numItems valueSize totalKeyLength =
     (let hashesOff = 16;
          keysOff = roundUp (wrap64 (hashesOff + wrap64 (4 * numItems))) 8;
          valuesOff = wrap64 (keysOff + wrap64 (8 * numItems));
          keyDataOff = wrap64 (valuesOff + wrap64 (valueSize * numItems));
          len = wrap64 (wrap64 (keyDataOff + totalKeyLength) + wrap64 (4 * numItems))
      in (hashesOff, keysOff, valuesOff, keyDataOff, len))"

section \<open>Memory\<close>

text \<open>
  The builder forges slice headers over one allocation and the reader over a mapped file, so
  the four sections are views into one memory.  A \<open>store\<close> is the memory as seen from the
  base pointer (the arena's first byte, or the first byte of the mapped file): an address is
  an offset from that pointer.  Multi-byte values are stored in the machine's byte order,
  taken here to be little-endian (amd64, arm64).
\<close>

type_synonym byte = "8 word"
type_synonym store = "nat \<Rightarrow> byte"
type_synonym hash = "32 word"

text \<open>
  The ways the code fails fatally: \<^verbatim>\<open>panic("out of space!")\<close>, an index or slice bound
  out of range, \<^verbatim>\<open>make\<close> refusing a length, the dereference of a nil pointer, and the
  memory fault of a copy whose byte count is negative.
\<close>

datatype panic = OutOfSpace | OutOfRange | MakeLen | NilDeref | MemFault

text \<open>Pointer arithmetic is \<^verbatim>\<open>uintptr\<close> arithmetic, modulo \<open>2^64\<close>.\<close>

definition ptr_add :: "nat \<Rightarrow> int \<Rightarrow> nat" where
  "ptr_add p d = nat ((int p + d) mod 2 ^ 64)"

fun le_bytes :: "nat \<Rightarrow> nat \<Rightarrow> byte list" where
  "le_bytes 0 v = []"
| "le_bytes (Suc n) v = of_nat v # le_bytes n (v div 256)"

fun from_le :: "byte list \<Rightarrow> nat" where
  "from_le [] = 0"
| "from_le (b # bs) = unat b + 256 * from_le bs"

definition load_bytes :: "store \<Rightarrow> nat \<Rightarrow> nat \<Rightarrow> byte list" where
  "load_bytes m a n = map m [a..<a + n]"

definition store_bytes :: "store \<Rightarrow> nat \<Rightarrow> byte list \<Rightarrow> store" where
  "store_bytes m a bs = (\<lambda>x. if a \<le> x \<and> x < a + length bs then bs ! (x - a) else m x)"

definition byte_of_char :: "char \<Rightarrow> byte" where
  "byte_of_char c = of_nat (of_char c)"

definition char_of_byte :: "byte \<Rightarrow> char" where
  "char_of_byte b = char_of (unat b)"

subsection \<open>Slices\<close>

text \<open>
  A slice header: the address of the first element and the length.  Every slice of the
  source has its capacity equal to its length.  The bounds check of an index expression
  compares index and length as unsigned numbers, \<^verbatim>\<open>uint(i) < uint(len)\<close>; that is
  \<open>0 \<le> i < len\<close> on every slice whose length is not negative, but the headers forged
  here can hold a negative length, and then the check passes wherever the unsigned
  comparison does.  A slice expression \<^verbatim>\<open>s[low:high]\<close> checks
  \<^verbatim>\<open>uint(high) <= uint(cap)\<close> and \<^verbatim>\<open>uint(low) <= uint(high)\<close> in the same way,
  and \<^verbatim>\<open>s[low:]\<close> is \<^verbatim>\<open>s[low:len(s)]\<close>.  The checks are against the header only:
  a forged header reaches whatever memory lies at its addresses.
\<close>

record slice =
  Data :: nat
  Len :: int

definition index_ok :: "slice \<Rightarrow> int \<Rightarrow> bool" where
  "index_ok s i \<longleftrightarrow> i mod 2 ^ 64 < Len s mod 2 ^ 64"

definition slice_range :: "slice \<Rightarrow> int \<Rightarrow> int \<Rightarrow> panic + slice" where
  "slice_range s low high =
     (if high mod 2 ^ 64 \<le> Len s mod 2 ^ 64 \<and> low mod 2 ^ 64 \<le> high mod 2 ^ 64
      then Inr \<lparr>Data = ptr_add (Data s) low, Len = wrap64 (high - low)\<rparr>
      else Inl OutOfRange)"

definition slice_from :: "slice \<Rightarrow> int \<Rightarrow> panic + slice" where
  "slice_from s low = slice_range s low (Len s)"

text \<open>
  \<^verbatim>\<open>copy(dst, src)\<close> on bytes moves the smaller of the two lengths.  The source is given
  by its length and the memory at its pointer.  With a negative length in a forged header
  the count is negative, and the move of that many bytes, taken as unsigned, faults.
\<close>

definition copy_bytes :: "store \<Rightarrow> slice \<Rightarrow> int \<Rightarrow> store \<Rightarrow> panic + store" where
  "copy_bytes m dst n src =
     (let k = min (Len dst) n
      in if k < 0 then Inl MemFault
         else Inr (store_bytes m (Data dst) (map src [0..<nat k])))"

text \<open>The memory of a string, from its first byte.\<close>

definition string_mem :: "string \<Rightarrow> store" where
  "string_mem key = (\<lambda>i. if i < length key then byte_of_char (key ! i) else 0)"

definition load_hash :: "store \<Rightarrow> slice \<Rightarrow> int \<Rightarrow> panic + hash" where
  "load_hash m s i =
     (if index_ok s i then Inr (of_nat (from_le (load_bytes m (ptr_add (Data s) (4 * i)) 4)))
      else Inl OutOfRange)"

definition store_hash :: "store \<Rightarrow> slice \<Rightarrow> int \<Rightarrow> hash \<Rightarrow> panic + store" where
  "store_hash m s i h =
     (if index_ok s i then Inr (store_bytes m (ptr_add (Data s) (4 * i)) (le_bytes 4 (unat h)))
      else Inl OutOfRange)"

definition load_keyOffset :: "store \<Rightarrow> slice \<Rightarrow> int \<Rightarrow> panic + int" where
  "load_keyOffset m s i =
     (if index_ok s i then Inr (wrap64 (int (from_le (load_bytes m (ptr_add (Data s) (8 * i)) 8))))
      else Inl OutOfRange)"

definition store_keyOffset :: "store \<Rightarrow> slice \<Rightarrow> int \<Rightarrow> int \<Rightarrow> panic + store" where
  "store_keyOffset m s i k =
     (if index_ok s i then Inr (store_bytes m (ptr_add (Data s) (8 * i)) (le_bytes 8 (uint64 k)))
      else Inl OutOfRange)"

text \<open>
  A string is a header too, an address and a length.  Two strings are equal when their
  lengths are and their bytes are; the second argument is a string read from the table's
  memory, the third a key of the caller.
\<close>

definition string_eq :: "store \<Rightarrow> slice \<Rightarrow> string \<Rightarrow> bool" where
  "string_eq m s key \<longleftrightarrow>
     Len s = int (length key) \<and> load_bytes m (Data s) (length key) = map byte_of_char key"

section \<open>Variable-length integers (encoding/binary)\<close>

text \<open>
  \<^verbatim>\<open>PutUvarint\<close>: seven bits a byte, the low ones first, the high bit set on every byte
  but the last.  The write index is checked against the buffer at each byte.
\<close>

function PutUvarint :: "store \<Rightarrow> slice \<Rightarrow> int \<Rightarrow> 64 word \<Rightarrow> panic + store \<times> int" where
  "PutUvarint m buf i x =
     (if 0x80 \<le> x
      then (if index_ok buf i
            then PutUvarint (m(ptr_add (Data buf) i := ucast x OR 0x80)) buf (i + 1) (drop_bit 7 x)
            else Inl OutOfRange)
      else (if index_ok buf i
            then Inr (m(ptr_add (Data buf) i := ucast x), i + 1)
            else Inl OutOfRange))"
  by pat_completeness auto
termination
proof (relation "measure (\<lambda>(m, buf, i, x). unat x)")
  show "wf (measure (\<lambda>(m, buf, i, x). unat x))"
    by simp
next
  fix m :: store and buf :: slice and i :: int and x :: "64 word"
  assume "0x80 \<le> x"
  then have "x \<noteq> 0"
    by auto
  then have "0 < unat x"
    by (simp add: unat_gt_0)
  then have "unat x div 2 ^ 7 < unat x"
    by simp
  then show "((m(ptr_add (Data buf) i := ucast x OR 0x80), buf, i + 1, drop_bit 7 x), (m, buf, i, x))
      \<in> measure (\<lambda>(m, buf, i, x). unat x)"
    by (simp add: drop_bit_eq_div unat_div)
qed

text \<open>
  \<^verbatim>\<open>PutVarint(buf, x)\<close>: \<^verbatim>\<open>ux := uint64(x) << 1; if x < 0 { ux = ^ux }\<close>.
\<close>

definition PutVarint :: "store \<Rightarrow> slice \<Rightarrow> int \<Rightarrow> panic + store \<times> int" where
  "PutVarint m buf x =
     (let ux = push_bit 1 (word_of_int x :: 64 word);
          ux = (if x < 0 then NOT ux else ux)
      in PutUvarint m buf 0 ux)"

text \<open>
  \<^verbatim>\<open>byteReader.ReadByte\<close>: \<^verbatim>\<open>b := br.buf[br.offset]; br.offset++\<close>.  It never
  returns an error; reading past the buffer panics.
\<close>

definition ReadByte :: "store \<Rightarrow> slice \<Rightarrow> int \<Rightarrow> panic + byte \<times> int" where
  "ReadByte m buf off =
     (if index_ok buf off then Inr (m (ptr_add (Data buf) off), off + 1) else Inl OutOfRange)"

text \<open>
  \<^verbatim>\<open>ReadUvarint\<close> reads at most \<^verbatim>\<open>MaxVarintLen64\<close> = 10 bytes.  The first argument
  counts the iterations that remain, so that \<^verbatim>\<open>i == MaxVarintLen64-1\<close> is the last one.
  The result is the value and the reader's offset; the error that Go returns beside the
  value on overflow is dropped, as \<^verbatim>\<open>getKey\<close> drops it.
\<close>

fun ReadUvarint_loop :: "nat \<Rightarrow> store \<Rightarrow> slice \<Rightarrow> int \<Rightarrow> 64 word \<Rightarrow> nat \<Rightarrow> panic + 64 word \<times> int" where
  "ReadUvarint_loop 0 m buf off x s = Inr (x, off)"
| "ReadUvarint_loop (Suc k) m buf off x s =
     (case ReadByte m buf off of
        Inl p \<Rightarrow> Inl p
      | Inr (b, off1) \<Rightarrow>
          if b < 0x80
          then (if k = 0 \<and> 1 < b then Inr (x, off1)
                else Inr (x OR push_bit s (ucast b), off1))
          else ReadUvarint_loop k m buf off1 (x OR push_bit s (ucast (b AND 0x7f))) (s + 7))"

definition ReadUvarint :: "store \<Rightarrow> slice \<Rightarrow> int \<Rightarrow> panic + 64 word \<times> int" where
  "ReadUvarint m buf off = ReadUvarint_loop 10 m buf off 0 0"

text \<open>
  \<^verbatim>\<open>ReadVarint\<close>: \<^verbatim>\<open>x := int64(ux >> 1); if ux&1 != 0 { x = ^x }\<close>.
\<close>

definition ReadVarint :: "store \<Rightarrow> slice \<Rightarrow> int \<Rightarrow> panic + int \<times> int" where
  "ReadVarint m buf off =
     (case ReadUvarint m buf off of
        Inl p \<Rightarrow> Inl p
      | Inr (ux, off1) \<Rightarrow>
          (let x = drop_bit 1 ux;
               x = (if ux AND 1 \<noteq> 0 then NOT x else x)
           in Inr (sint x, off1)))"

section \<open>The table (table.go)\<close>

text \<open>
  The fields of \<^verbatim>\<open>table\<close>, with the memory its slices point into.  \<open>values_v\<close> and
  \<open>length_t\<close> are the fields \<^verbatim>\<open>values\<close> and \<^verbatim>\<open>length\<close>.  The scratch field
  \<^verbatim>\<open>keyDataReader\<close> is reset at the start of every \<^verbatim>\<open>getKey\<close> and read nowhere
  else, so it is local to \<open>getKey\<close> here.
\<close>

record table =
  valueSize :: int
  numItems :: int
  mem :: store
  arena :: slice
  hashes :: slice
  keys :: slice
  values_v :: slice
  keyData :: slice
  keyOffset :: int
  length_t :: int


record Read =
  tbl :: table
  dataLength :: nat

text \<open>\<^verbatim>\<open>bits.Len\<close> and \<^verbatim>\<open>bits.LeadingZeros\<close> on a 64-bit \<^verbatim>\<open>uint\<close>.\<close>

fun bits_Len :: "nat \<Rightarrow> nat" where
  "bits_Len x = (if x = 0 then 0 else Suc (bits_Len (x div 2)))"

declare bits_Len.simps [simp del]

definition LeadingZeros :: "nat \<Rightarrow> int" where
  "LeadingZeros x = 64 - int (bits_Len x)"

text \<open>
  \<^verbatim>\<open>make([]int64, n)\<close> panics on a negative length and on one whose bytes exceed the
  allocator's limit, \<^verbatim>\<open>maxAlloc\<close>, which is \<open>2^48\<close> on the 64-bit platforms the
  package builds for.  Beneath the limit the allocation is taken to succeed.
\<close>

definition maxAlloc :: int where
  "maxAlloc = 2 ^ 48"

text \<open>
  \<^verbatim>\<open>New\<close>.  The first argument is the memory found at the address of the allocation:
  \<^verbatim>\<open>make\<close> zeroes the \<open>8 * arenaLen\<close> bytes it allocates and the forged slices may
  extend past them.  The result is the table embedded in the \<^verbatim>\<open>Write\<close> that
  \<^verbatim>\<open>New\<close> returns a pointer to; that pointer is never nil.
\<close>

definition New :: "store \<Rightarrow> int \<Rightarrow> int \<Rightarrow> int \<Rightarrow> panic + table" where
  "New heap numItems0 valueSize0 totalKeyLength =
     (let numItems1 = wrap64 (push_bit (nat (8 * 8 - LeadingZeros (uint64 (wrap64 (numItems0 - 1))))) 1);
          (hashesOff, keysOff, valuesOff, keyDataOff, len) = offsets numItems1 valueSize0 totalKeyLength;
          arenaLen = wrap64 (quot (wrap64 (len + 1)) 8 - 1)
      in if arenaLen < 0 \<or> maxAlloc < 8 * arenaLen then Inl MakeLen
         else Inr \<lparr>valueSize = valueSize0,
                   numItems = numItems1,
                   mem = (\<lambda>a. if a < 8 * nat arenaLen then 0 else heap a),
                   arena = \<lparr>Data = 0, Len = arenaLen\<rparr>,
                   hashes = \<lparr>Data = uint64 hashesOff, Len = numItems1\<rparr>,
                   keys = \<lparr>Data = uint64 keysOff, Len = numItems1\<rparr>,
                   values_v = \<lparr>Data = uint64 valuesOff, Len = wrap64 (numItems1 * valueSize0)\<rparr>,
                   keyData = \<lparr>Data = uint64 keyDataOff, Len = wrap64 (len - keyDataOff)\<rparr>,
                   keyOffset = 0,
                   length_t = len\<rparr>)"

text \<open>
  \<^verbatim>\<open>newFromData(data, length)\<close>: the header is read at \<^verbatim>\<open>data\<close>, and every section
  is addressed from \<^verbatim>\<open>dataStart := data + unsafe.Sizeof(*h)\<close>.  The error it returns is
  always nil, and so is omitted.
\<close>

definition newFromData :: "store \<Rightarrow> nat \<Rightarrow> Read" where
  "newFromData m len =
     (let h_numItems = wrap64 (int (from_le (load_bytes m 0 8)));
          h_valueSize = wrap64 (int (from_le (load_bytes m 8 8)));
          (hashesOff, keysOff, valuesOff, keyDataOff, _) = offsets h_numItems h_valueSize 0;
          dataStart = 16
      in \<lparr>tbl = \<lparr>valueSize = h_valueSize,
                  numItems = h_numItems,
                  mem = m,
                  arena = \<lparr>Data = 0, Len = 0\<rparr>,
                  hashes = \<lparr>Data = ptr_add dataStart hashesOff, Len = h_numItems\<rparr>,
                  keys = \<lparr>Data = ptr_add dataStart keysOff, Len = h_numItems\<rparr>,
                  values_v = \<lparr>Data = ptr_add dataStart valuesOff, Len = wrap64 (h_numItems * h_valueSize)\<rparr>,
                  keyData = \<lparr>Data = ptr_add dataStart keyDataOff, Len = wrap64 (wrap64 (int len) - keyDataOff)\<rparr>,
                  keyOffset = 0,
                  length_t = 0\<rparr>,
          dataLength = len\<rparr>)"

text \<open>
  \<^verbatim>\<open>NewFromBytes(data)\<close>: the store holds the bytes of the slice, followed by whatever
  memory comes after them.
\<close>

definition NewFromBytes :: "store \<Rightarrow> byte list \<Rightarrow> Read" where
  "NewFromBytes heap bs = newFromData (store_bytes heap 0 bs) (length bs)"

definition Cap :: "table \<Rightarrow> int" where
  "Cap t = Len (hashes t)"

text \<open>
  \<^verbatim>\<open>WriteTo\<close>, on a writer that appends to the bytes written so far and does not fail: the
  header's two \<^verbatim>\<open>int64\<close>, then \<^verbatim>\<open>t.length\<close> bytes from the start of the arena.  The
  result is the writer and the count.
\<close>

definition WriteTo :: "table \<Rightarrow> byte list \<Rightarrow> byte list \<times> int" where
  "WriteTo t f =
     (let header_bytes = le_bytes 8 (uint64 (numItems t)) @ le_bytes 8 (uint64 (valueSize t));
          arena_bytes = load_bytes (mem t) (Data (arena t)) (nat (length_t t))
      in (f @ header_bytes @ arena_bytes, wrap64 (int (length header_bytes) + int (length arena_bytes))))"

text \<open>
  \<^verbatim>\<open>getKey\<close>: the string at a key offset, read through \<^verbatim>\<open>ReadVarint\<close>.  The result
  is the header of the byte slice, reinterpreted as a string.
\<close>

definition getKey :: "table \<Rightarrow> int \<Rightarrow> panic + slice" where
  "getKey t offset =
     (case slice_from (keyData t) offset of
        Inl p \<Rightarrow> Inl p
      | Inr buf \<Rightarrow>
          (case ReadVarint (mem t) buf 0 of
             Inl p \<Rightarrow> Inl p
           | Inr (len, roff) \<Rightarrow>
               slice_range (keyData t) (wrap64 (roff + offset))
                 (wrap64 (wrap64 (roff + offset) + len))))"

text \<open>
  \<^verbatim>\<open>addKey\<close>: the length as a varint, then the key's bytes, at the write cursor.  The
  result is the table and the offset of the record.
\<close>

definition addKey :: "table \<Rightarrow> string \<Rightarrow> panic + table \<times> int" where
  "addKey t key =
     (let start = keyOffset t
      in case slice_from (keyData t) (keyOffset t) of
           Inl p \<Rightarrow> Inl p
         | Inr buf \<Rightarrow>
             (case PutVarint (mem t) buf (int (length key)) of
                Inl p \<Rightarrow> Inl p
              | Inr (m1, n) \<Rightarrow>
                  (let off1 = wrap64 (keyOffset t + n)
                   in case slice_from (keyData t) off1 of
                        Inl p \<Rightarrow> Inl p
                      | Inr dst \<Rightarrow>
                          (case copy_bytes m1 dst (int (length key)) (string_mem key) of
                             Inl p \<Rightarrow> Inl p
                           | Inr m2 \<Rightarrow>
                               Inr (t\<lparr>mem := m2,
                                      keyOffset := wrap64 (off1 + int (length key))\<rparr>,
                                    start)))))"

text \<open>
  The probe loop of \<^verbatim>\<open>find\<close>.  The comparison of the key is evaluated only where the
  fingerprints are equal (\<^verbatim>\<open>&&\<close>).
\<close>

partial_function (option) find_loop ::
  "table \<Rightarrow> string \<Rightarrow> hash \<Rightarrow> int \<Rightarrow> int \<Rightarrow> (panic + int \<times> bool) option" where
  "find_loop t key hashVal start cursor =
     (case load_hash (mem t) (hashes t) cursor of
        Inl p \<Rightarrow> Some (Inl p)
      | Inr h \<Rightarrow>
          if h = 0 then Some (Inr (cursor, False))
          else
            (case (if h = hashVal
                   then (case load_keyOffset (mem t) (keys t) cursor of
                           Inl p \<Rightarrow> Inl p
                         | Inr off \<Rightarrow>
                             (case getKey t off of
                                Inl p \<Rightarrow> Inl p
                              | Inr k \<Rightarrow> Inr (string_eq (mem t) k key)))
                   else Inr False) of
               Inl p \<Rightarrow> Some (Inl p)
             | Inr eq \<Rightarrow>
                 if eq then Some (Inr (cursor, True))
                 else
                   (let cursor1 = wrap64 (cursor + 1);
                        cursor2 = (if cursor1 = numItems t then 0 else cursor1)
                    in if cursor2 = start then Some (Inl OutOfSpace)
                       else find_loop t key hashVal start cursor2)))"

declare find_loop.simps [code]

definition find :: "table \<Rightarrow> string \<Rightarrow> hash \<Rightarrow> (panic + int \<times> bool) option" where
  "find t key hashVal =
     (let l = numItems t;
          cursor = uint hashVal AND wrap64 (l - 1)
      in find_loop t key hashVal cursor cursor)"

text \<open>
  \<^verbatim>\<open>Set\<close>.  \<open>Hash\<close> is \<^verbatim>\<open>aeshash.Hash\<close>, an external function; \<open>val\<close> is the memory
  at the value pointer, of which \<^verbatim>\<open>valueSize\<close> bytes are copied.
\<close>

definition Set :: "(string \<Rightarrow> hash) \<Rightarrow> table \<Rightarrow> string \<Rightarrow> store \<Rightarrow> (panic + table) option" where
  "Set Hash t key val =
     (let hash = Hash key
      in case find t key hash of
           None \<Rightarrow> None
         | Some (Inl p) \<Rightarrow> Some (Inl p)
         | Some (Inr (index, found)) \<Rightarrow>
             (case (if \<not> found
                    then (case store_hash (mem t) (hashes t) index hash of
                            Inl p \<Rightarrow> Inl p
                          | Inr m1 \<Rightarrow>
                              (case addKey (t\<lparr>mem := m1\<rparr>) key of
                                 Inl p \<Rightarrow> Inl p
                               | Inr (t2, off) \<Rightarrow>
                                   (case store_keyOffset (mem t2) (keys t2) index off of
                                      Inl p \<Rightarrow> Inl p
                                    | Inr m3 \<Rightarrow> Inr (t2\<lparr>mem := m3\<rparr>))))
                    else Inr t) of
                Inl p \<Rightarrow> Some (Inl p)
              | Inr t4 \<Rightarrow>
                  (case slice_from (values_v t4) (wrap64 (index * valueSize t4)) of
                     Inl p \<Rightarrow> Some (Inl p)
                   | Inr dst \<Rightarrow>
                       (case copy_bytes (mem t4) dst (valueSize t4) val of
                          Inl p \<Rightarrow> Some (Inl p)
                        | Inr m5 \<Rightarrow> Some (Inr (t4\<lparr>mem := m5\<rparr>))))))"




section \<open>Callers and instances\<close>

text \<open>
  A caller's loop of \<^verbatim>\<open>Set\<close> calls (as in the tests), stopping at the first panic.
\<close>

fun Set_all :: "(string \<Rightarrow> hash) \<Rightarrow> table \<Rightarrow> (string \<times> store) list \<Rightarrow> (panic + table) option" where
  "Set_all Hash t [] = Some (Inr t)"
| "Set_all Hash t ((key, val) # kvs) =
     (case Set Hash t key val of
        None \<Rightarrow> None
      | Some (Inl p) \<Rightarrow> Some (Inl p)
      | Some (Inr t1) \<Rightarrow> Set_all Hash t1 kvs)"

text \<open>
  Instances for the concrete examples: a memory of zero bytes, a value whose bytes all
  equal \<open>b\<close>, and a stand-in for the external hash function (the sum of the key's bytes).
\<close>

definition zero_heap :: store where
  "zero_heap = (\<lambda>a. 0)"

definition bytes_of :: "byte \<Rightarrow> store" where
  "bytes_of b = (\<lambda>a. b)"


section \<open>Facts about the layout calculator\<close>

lemma wrap64_id: "- (2 ^ 63) \<le> x \<Longrightarrow> x < 2 ^ 63 \<Longrightarrow> wrap64 x = x"
  by (simp add: wrap64_def)

text \<open>
  C8.  The layout calculator returns the reference vectors of the tests \<^verbatim>\<open>basic\<close> and
  \<^verbatim>\<open>bigger\<close>: the inputs (1, 1, 1) give hashes 16, keys 24, values 32, key data 33 and
  total length 38, and the inputs (5, 17, 40) give 16, 40, 80, 165 and 225.
\<close>

theorem offsets_reference_vectors:
  "offsets 1 1 1 = (16, 24, 32, 33, 38) \<and> offsets 5 17 40 = (16, 40, 80, 165, 225)"
  by code_simp

section \<open>The capacity of a builder\<close>

lemma bits_Len_gt: "x < 2 ^ bits_Len x"
proof (induction x rule: bits_Len.induct)
  case (1 x)
  show ?case
  proof (cases "x = 0")
    case True
    then show ?thesis by (simp add: bits_Len.simps)
  next
    case False
    with 1 have "x div 2 < 2 ^ bits_Len (x div 2)" by simp
    then have "x < 2 * 2 ^ bits_Len (x div 2)" by linarith
    with False show ?thesis by (simp add: bits_Len.simps [of x])
  qed
qed

lemma bits_Len_le: "x < 2 ^ k \<Longrightarrow> bits_Len x \<le> k"
proof (induction k arbitrary: x)
  case 0
  then show ?case by (simp add: bits_Len.simps)
next
  case (Suc k)
  show ?case
  proof (cases "x = 0")
    case True
    then show ?thesis by (simp add: bits_Len.simps)
  next
    case False
    from Suc.prems have "x div 2 < 2 ^ k" by simp
    then have "bits_Len (x div 2) \<le> k" by (rule Suc.IH)
    with False show ?thesis by (simp add: bits_Len.simps [of x])
  qed
qed

lemma bits_Len_pow: "bits_Len (2 ^ k) = Suc k"
  by (induction k)
    (simp_all add: bits_Len.simps [of "Suc 0"] bits_Len.simps [of "2 * _"] bits_Len.simps [of 0])

lemma New_Cap:
  "New heap n vs tkl = Inr t \<Longrightarrow>
   Cap t = wrap64 (push_bit (nat (8 * 8 - LeadingZeros (uint64 (wrap64 (n - 1))))) 1)"
  by (auto simp: New_def Let_def Cap_def split: prod.splits if_splits)

lemma round_up_pow2:
  assumes "1 \<le> n" "n \<le> 2 ^ 62"
  shows "\<exists>k\<le>62. wrap64 (push_bit (nat (8 * 8 - LeadingZeros (uint64 (wrap64 (n - 1))))) 1) = 2 ^ k
          \<and> n \<le> 2 ^ k"
proof -
  have w: "wrap64 (n - 1) = n - 1"
    using assms by (intro wrap64_id) auto
  have u: "uint64 (n - 1) = nat (n - 1)"
    using assms by (simp add: uint64_def)
  define k where "k = bits_Len (nat (n - 1))"
  have "nat (n - 1) < 2 ^ 62"
    using assms by (simp add: nat_less_iff)
  then have k62: "k \<le> 62"
    unfolding k_def by (rule bits_Len_le)
  have "nat (n - 1) < 2 ^ k"
    unfolding k_def by (rule bits_Len_gt)
  then have nk: "n \<le> 2 ^ k"
    using assms by (simp add: nat_less_iff)
  have hi: "(2::int) ^ k \<le> 2 ^ 62"
    using k62 by (intro power_increasing) auto
  have lo: "(0::int) \<le> 2 ^ k"
    by simp
  have "wrap64 (2 ^ k) = 2 ^ k"
  proof (rule wrap64_id)
    have "- (2 ^ 63) \<le> (0::int)"
      by simp
    then show "- (2 ^ 63) \<le> (2::int) ^ k"
      using lo by (rule order_trans)
    have "(2::int) ^ 62 < 2 ^ 63"
      by simp
    with hi show "(2::int) ^ k < 2 ^ 63"
      by (rule le_less_trans)
  qed
  then have "wrap64 (push_bit (nat (8 * 8 - LeadingZeros (uint64 (wrap64 (n - 1))))) 1) = 2 ^ k"
    by (simp add: w u LeadingZeros_def k_def push_bit_eq_mult)
  with k62 nk show ?thesis by blast
qed

text \<open>
  C7 (as amended).  For every builder constructed by \<^verbatim>\<open>New\<close> with a requested item
  count \<open>1 \<le> n \<le> 2^62\<close>, the capacity is a power of two and at least \<open>n\<close>; the requests
  7, 8 and 9 give the capacities 8, 8 and 16.
\<close>

theorem New_capacity_power_of_two:
  assumes "New heap n valueSize0 totalKeyLength = Inr t" and "1 \<le> n" and "n \<le> 2 ^ 62"
  shows "(\<exists>k. Cap t = 2 ^ k) \<and> n \<le> Cap t
       \<and> (n = 7 \<longrightarrow> Cap t = 8) \<and> (n = 8 \<longrightarrow> Cap t = 8) \<and> (n = 9 \<longrightarrow> Cap t = 16)"
proof -
  note c = New_Cap [OF assms(1)]
  from round_up_pow2 [OF assms(2,3)] c have "(\<exists>k. Cap t = 2 ^ k) \<and> n \<le> Cap t"
    by auto
  moreover have "wrap64 (push_bit (nat (8 * 8 - LeadingZeros (uint64 (wrap64 (7 - 1))))) 1) = 8"
    by code_simp
  moreover have "wrap64 (push_bit (nat (8 * 8 - LeadingZeros (uint64 (wrap64 (8 - 1))))) 1) = 8"
    by code_simp
  moreover have "wrap64 (push_bit (nat (8 * 8 - LeadingZeros (uint64 (wrap64 (9 - 1))))) 1) = 16"
    by code_simp
  ultimately show ?thesis
    using c by auto
qed

theorem New_capacity_power_of_two_witness:
  "\<exists>t. New zero_heap 7 8 21 = Inr t \<and> (1::int) \<le> 7 \<and> (7::int) \<le> 2 ^ 62
     \<and> (\<exists>k. Cap t = 2 ^ k) \<and> 7 \<le> Cap t \<and> Cap t = 8"
proof -
  have "\<not> isl (New zero_heap 7 8 21)"
    by code_simp
  then obtain t where t: "New zero_heap 7 8 21 = Inr t"
    by (cases "New zero_heap 7 8 21") auto
  from New_capacity_power_of_two [OF t] t show ?thesis
    by auto
qed

text \<open>
  The claim as stated, for every \<open>n \<ge> 1\<close>, fails beyond \<open>2^62\<close>: the shift gives
  \<open>1 << 63\<close>, the smallest \<^verbatim>\<open>int\<close>, the layout wraps to a total length of 37 bytes,
  the allocation succeeds, and \<^verbatim>\<open>Cap\<close> returns \<open>- 2^63\<close>.
\<close>

theorem New_capacity_counterexample:
  "map_sum id Cap (New zero_heap (2 ^ 62 + 1) 8 21) = Inr (- (2 ^ 63))"
proof -
  have t1: "wrap64 (2 ^ 62 + 1 - 1) = 2 ^ 62"
    by (simp add: wrap64_def)
  have t2: "uint64 (2 ^ 62) = 2 ^ 62"
    by (simp add: uint64_def)
  have t3: "wrap64 (push_bit (nat (8 * 8 - LeadingZeros (2 ^ 62))) 1) = - (2 ^ 63)"
    using bits_Len_pow [of 62] by (simp add: LeadingZeros_def wrap64_def)
  have t4: "offsets (- (2 ^ 63)) 8 21 = (16, 16, 16, 16, 37)"
    by (simp add: offsets_def roundUp_def wrap64_def)
  have "New zero_heap (2 ^ 62 + 1) 8 21 \<noteq> Inl MakeLen"
    unfolding New_def t1 t2 t3 t4 Let_def prod.case by (simp add: quot_def wrap64_def maxAlloc_def)
  then obtain t where t: "New zero_heap (2 ^ 62 + 1) 8 21 = Inr t"
    by (auto simp: New_def Let_def split: prod.splits if_splits)
  from New_Cap [OF t] have "Cap t = - (2 ^ 63)"
    unfolding t1 t2 t3 .
  with t show ?thesis by simp
qed

section \<open>Lookup on a nil receiver\<close>



end
